theory Spec2Isabelle
  imports Complex_Main "HOL-Library.Sublist" "HOL-Library.AList"
begin

section \<open>Invoice financing: risk bands, offers, advances and settlements\<close>

text \<open>
  The development follows the TypeScript sources: the upload component
  (\<^verbatim>\<open>simulateInvoiceProcessing\<close>), the offer screen (\<^verbatim>\<open>calculateOffer\<close>), the mock
  AI service (\<^verbatim>\<open>calculateRiskScore\<close>, \<^verbatim>\<open>determineRiskBand\<close>) and the HTTP handlers of
  the server (\<^verbatim>\<open>GET /advances\<close>, \<^verbatim>\<open>POST /advances/:advanceId/mark-paid\<close>).

  A JavaScript \<^verbatim>\<open>number\<close> is modelled as a \<^typ>\<open>real\<close>. For the offer terms this
  is exact on the amounts the system handles: the percentages 2.5, 3.0 and 3.5 are binary
  fractions, and for integer amounts of any practical magnitude (up to about ten to the
  thirteenth minor units) the products are exact in double precision and the quotient by
  100 rounds to a number with the same floor. The sums and products of the scored risk
  mode are idealised in the same way. Timestamps are integers, the milliseconds since
  the epoch that \<^verbatim>\<open>Date.now()\<close> and \<^verbatim>\<open>new Date(s).getTime()\<close> return; an ISO date
  string is identified with its timestamp. Risk bands and statuses are the strings the
  code compares with.
\<close>

subsection \<open>Days between two instants\<close>

text \<open>
  \<^verbatim>\<open>Math.ceil((t1 - t0) / (1000 * 60 * 60 * 24))\<close>, the expression every component uses
  for a distance in days.
\<close>

definition msPerDay :: int where
  "msPerDay = 1000 * 60 * 60 * 24"

definition daysBetween :: "int \<Rightarrow> int \<Rightarrow> int" where
  "daysBetween t1 t0 = \<lceil>real_of_int (t1 - t0) / real_of_int msPerDay\<rceil>"

subsection \<open>Simple risk assessment of the upload component\<close>

text \<open>
  The \<^verbatim>\<open>if\<close> chain of \<^verbatim>\<open>simulateInvoiceProcessing\<close> that assigns \<^verbatim>\<open>riskBand\<close> from
  \<^verbatim>\<open>mockData.amount\<close> and \<^verbatim>\<open>daysToDue\<close>.
\<close>

definition simulateInvoiceProcessing_riskBand :: "real \<Rightarrow> int \<Rightarrow> string" where
  "simulateInvoiceProcessing_riskBand amount daysToDue =
     (if amount < 25000 \<and> daysToDue < 60 then ''low''
      else if amount < 40000 \<and> daysToDue < 45 then ''medium''
      else ''high'')"

text \<open>The order of the bands by risk: low below medium below high.\<close>

definition riskLevel :: "string \<Rightarrow> nat" where
  "riskLevel band = (if band = ''low'' then 0 else if band = ''medium'' then 1 else 2)"

subsection \<open>Offer terms of the offer screen\<close>

record Offer =
  advancePercent :: real
  feePercent :: real
  advanceAmount :: real
  fee :: real
  netReceived :: real
  remainingAmount :: real

text \<open>
  The \<^verbatim>\<open>switch\<close> of \<^verbatim>\<open>calculateOffer\<close> on \<^verbatim>\<open>invoice.riskBand\<close>, with its
  \<^verbatim>\<open>default\<close> branch.
\<close>

definition offerTerms :: "string \<Rightarrow> real \<times> real" where
  "offerTerms riskBand =
     (if riskBand = ''low'' then (90, 2.5)
      else if riskBand = ''medium'' then (85, 3.0)
      else if riskBand = ''high'' then (80, 3.5)
      else (85, 3.0))"

definition calculateOffer :: "real \<Rightarrow> string \<Rightarrow> Offer" where
  "calculateOffer amount riskBand =
     (let (advancePercent, feePercent) = offerTerms riskBand;
          advanceAmount = real_of_int \<lfloor>(amount * advancePercent) / 100\<rfloor>;
          fee = real_of_int \<lfloor>(amount * feePercent) / 100\<rfloor>
      in \<lparr>advancePercent = advancePercent,
          feePercent = feePercent,
          advanceAmount = advanceAmount,
          fee = fee,
          netReceived = advanceAmount,
          remainingAmount = amount - advanceAmount - fee\<rparr>)"

subsection \<open>Scored risk assessment of the AI service\<close>

text \<open>The object \<^verbatim>\<open>calculateRiskFactors\<close> builds and \<^verbatim>\<open>calculateRiskScore\<close> reads.\<close>

record RiskFactors =
  amount :: real
  daysToDue :: int
  buyerProfile :: real
  invoiceAge :: real
  paymentHistory :: real
  industryRisk :: real







subsection \<open>Stored records\<close>

text \<open>
  The objects the server stores. \<^verbatim>\<open>createdAt\<close> and \<^verbatim>\<open>paidDate\<close> are timestamps;
  \<^verbatim>\<open>dueDate\<close> is the date string the handlers only copy.
\<close>

record Advance =
  id :: string
  invoiceId :: string
  userId :: string
  filename :: string
  buyer :: string
  invoiceAmount :: real
  advanceAmount :: real
  feePercent :: real
  dueDate :: string
  status :: string
  createdAt :: int
  riskBand :: string

record Settlement =
  id :: string
  invoiceId :: string
  userId :: string
  filename :: string
  buyer :: string
  invoiceAmount :: real
  advanceAmount :: real
  feeAmount :: real
  feePercent :: real
  remainingAmount :: real
  settlementAmount :: real
  paidDate :: int
  createdAt :: int
  riskBand :: string
  daysToPay :: int

subsection \<open>The key-value store\<close>

text \<open>
  The module \<^verbatim>\<open>kv_store.tsx\<close> that the server imports as \<^verbatim>\<open>kv\<close> is not among the
  sources; its three operations follow the contract the specification gives for the
  key-value store. A table is a list of rows (key, value). Failures of the store's
  transport, which would send a handler to its \<^verbatim>\<open>catch\<close> block, are not modelled.
\<close>

type_synonym 'v kv_table = "(string \<times> 'v) list"

text \<open>
  Modelled from the spec: \<^verbatim>\<open>kv.get\<close>, missing from the sources. It returns the stored
  value, or absent when the key has no row.
\<close>

definition kv_get :: "'v kv_table \<Rightarrow> string \<Rightarrow> 'v option" where
  "kv_get t key = map_of t key"

text \<open>
  Modelled from the spec: \<^verbatim>\<open>kv.set\<close>, missing from the sources. It overwrites
  unconditionally: the row of the key is replaced where it stands, and a key without a
  row gets a new last row.
\<close>

definition kv_set :: "'v kv_table \<Rightarrow> string \<Rightarrow> 'v \<Rightarrow> 'v kv_table" where
  "kv_set t key v = AList.update key v t"


text \<open>
  The server writes three kinds of rows, told apart by the head of the key: advance
  objects under \<^verbatim>\<open>advance:<id>\<close>, settlement objects under \<^verbatim>\<open>settlement:<id>\<close>, and
  id strings under \<^verbatim>\<open>user:<userId>:<kind>:<id>\<close>. The state keeps one table for each
  type of value, every table keyed by the full key string. The rows of invoices, which
  the two handlers below neither read nor write, are left out.
\<close>

record kv_state =
  advanceRows :: "Advance kv_table"
  settlementRows :: "Settlement kv_table"
  indexRows :: "string kv_table"

subsection \<open>Handlers of the server\<close>

text \<open>A response is \<^verbatim>\<open>c.json(body)\<close> or \<^verbatim>\<open>c.json({ error: message }, code)\<close>.\<close>

datatype 'a response = Ok 'a | Failed nat string

definition DEFAULT_USER_ID :: string where
  "DEFAULT_USER_ID = ''demo-user-123''"





text \<open>
  \<^verbatim>\<open>POST /advances/:advanceId/mark-paid\<close>. What the handler draws from its environment
  is a parameter: the settlement id from \<^verbatim>\<open>crypto.randomUUID()\<close>, the reading of
  \<^verbatim>\<open>Date.now()\<close> for \<^verbatim>\<open>daysToPay\<close>, and the later reading of the clock for
  \<^verbatim>\<open>paidDate\<close>.
\<close>

record env =
  uuid :: string
  now :: int
  paidAt :: int

definition markPaid :: "env \<Rightarrow> string \<Rightarrow> kv_state \<Rightarrow> bool response \<times> kv_state" where
  "markPaid e advanceId s =
     (let userId = DEFAULT_USER_ID in
      case kv_get (advanceRows s) (''advance:'' @ advanceId) of
        None \<Rightarrow> (Failed 404 ''Advance not found'', s)
      | Some advance \<Rightarrow>
          (let updatedAdvance = advance\<lparr>status := ''paid''\<rparr>;
               s = s\<lparr>advanceRows :=
                     kv_set (advanceRows s) (''advance:'' @ advanceId) updatedAdvance\<rparr>;
               settlementId = uuid e;
               feeAmount = real_of_int
                 \<lfloor>(Advance.invoiceAmount advance * Advance.feePercent advance) / 100\<rfloor>;
               remainingAmount =
                 Advance.invoiceAmount advance - Advance.advanceAmount advance - feeAmount;
               daysToPay = daysBetween (now e) (Advance.createdAt advance);
               settlement =
                 \<lparr>Settlement.id = settlementId,
                  Settlement.invoiceId = Advance.invoiceId advance,
                  Settlement.userId = userId,
                  Settlement.filename = Advance.filename advance,
                  Settlement.buyer = Advance.buyer advance,
                  Settlement.invoiceAmount = Advance.invoiceAmount advance,
                  Settlement.advanceAmount = Advance.advanceAmount advance,
                  Settlement.feeAmount = feeAmount,
                  Settlement.feePercent = Advance.feePercent advance,
                  Settlement.remainingAmount = remainingAmount,
                  Settlement.settlementAmount = remainingAmount,
                  Settlement.paidDate = paidAt e,
                  Settlement.createdAt = Advance.createdAt advance,
                  Settlement.riskBand = Advance.riskBand advance,
                  Settlement.daysToPay = daysToPay\<rparr>;
               s = s\<lparr>settlementRows :=
                     kv_set (settlementRows s) (''settlement:'' @ settlementId) settlement\<rparr>;
               s = s\<lparr>indexRows :=
                     kv_set (indexRows s)
                       (''user:'' @ userId @ '':settlement:'' @ settlementId) settlementId\<rparr>
           in (Ok True, s)))"

subsection \<open>Example states\<close>

text \<open>
  An active advance with the figures of the first sample advance of
  \<^verbatim>\<open>createSampleData\<close>, a state that holds it, and two calls of the mark-paid
  handler, five and six days after the advance was created.
\<close>

definition exampleAdvance :: Advance where
  "exampleAdvance =
     \<lparr>Advance.id = ''a1'', invoiceId = ''i1'', userId = ''demo-user-123'',
      filename = ''INV-2024-001.pdf'', buyer = ''Acme Corp'',
      invoiceAmount = 25000, advanceAmount = 22500, feePercent = 2.5,
      dueDate = ''2024-03-01'', status = ''active'', createdAt = 0, riskBand = ''low''\<rparr>"

definition exampleState :: kv_state where
  "exampleState =
     \<lparr>advanceRows = [(''advance:a1'', exampleAdvance)],
      settlementRows = [],
      indexRows = [(''user:demo-user-123:advance:a1'', ''a1'')]\<rparr>"

definition firstCall :: env where
  "firstCall = \<lparr>uuid = ''s1'', now = 5 * msPerDay + 1, paidAt = 5 * msPerDay + 2\<rparr>"

definition secondCall :: env where
  "secondCall = \<lparr>uuid = ''s2'', now = 6 * msPerDay, paidAt = 6 * msPerDay\<rparr>"

definition paidAdvance :: Advance where
  "paidAdvance = exampleAdvance\<lparr>status := ''paid''\<rparr>"

text \<open>The state after the advance has been marked paid once.\<close>

definition paidState :: kv_state where
  "paidState = snd (markPaid firstCall ''a1'' exampleState)"


section \<open>Properties\<close>

subsection \<open>Simple risk bands\<close>

text \<open>
  C3. For every amount and every number of days until the due date, the simple risk
  assessment gives low when the amount is below 25000 and the days are below 60;
  otherwise medium when the amount is below 40000 and the days are below 45;
  otherwise high.
\<close>

theorem simple_riskBand_cases:
  "(simulateInvoiceProcessing_riskBand amt d = ''low'' \<longleftrightarrow>
      amt < 25000 \<and> d < 60) \<and>
   (simulateInvoiceProcessing_riskBand amt d = ''medium'' \<longleftrightarrow>
      \<not> (amt < 25000 \<and> d < 60) \<and> amt < 40000 \<and> d < 45) \<and>
   (simulateInvoiceProcessing_riskBand amt d = ''high'' \<longleftrightarrow>
      \<not> (amt < 25000 \<and> d < 60) \<and> \<not> (amt < 40000 \<and> d < 45))"
  by (simp add: simulateInvoiceProcessing_riskBand_def)

text \<open>
  C9. The simple risk assessment is monotone: when neither the amount nor the days
  until the due date decrease, the band does not move to a lower risk level, in the
  order low, medium, high.
\<close>

theorem simple_riskBand_monotone:
  assumes "amt1 \<le> amt2" and "d1 \<le> d2"
  shows "riskLevel (simulateInvoiceProcessing_riskBand amt1 d1)
           \<le> riskLevel (simulateInvoiceProcessing_riskBand amt2 d2)"
  using assms by (auto simp add: simulateInvoiceProcessing_riskBand_def riskLevel_def)

theorem simple_riskBand_monotone_witness:
  "(24000::real) \<le> 30000 \<and> (30::int) \<le> 50 \<and>
   simulateInvoiceProcessing_riskBand 24000 30 = ''low'' \<and>
   simulateInvoiceProcessing_riskBand 30000 50 = ''high'' \<and>
   riskLevel (simulateInvoiceProcessing_riskBand 24000 30)
     \<le> riskLevel (simulateInvoiceProcessing_riskBand 30000 50)"
  using simple_riskBand_monotone [of 24000 30000 30 50]
  by (simp add: simulateInvoiceProcessing_riskBand_def)

subsection \<open>Offer terms\<close>





text \<open>
  C4, as the specification states it: for amount 25000 and a due date 59 days ahead
  the simple band would be low and the offer 90 percent. It is not: 25000 is not below
  25000, so the first test fails, and 59 is not below 45, so the second fails too.
\<close>

theorem scenario_25000_59_counterexample:
  "daysBetween (59 * msPerDay) 0 = 59 \<and>
   simulateInvoiceProcessing_riskBand 25000 59 \<noteq> ''low'' \<and>
   Offer.advancePercent (calculateOffer 25000 (simulateInvoiceProcessing_riskBand 25000 59))
     \<noteq> 90 \<and>
   Offer.advanceAmount (calculateOffer 25000 (simulateInvoiceProcessing_riskBand 25000 59))
     \<noteq> 22500"
  by (simp add: daysBetween_def msPerDay_def simulateInvoiceProcessing_riskBand_def
      calculateOffer_def offerTerms_def Let_def)

text \<open>
  C4, amended. For amount 25000 and a due date 59 days ahead the simple band is high,
  and the offer for it has advancePercent 80, advanceAmount 20000, feePercent 3.5,
  fee 875 and remainingAmount 4125. The figures 90, 22500, 2.5, 625 and 1875 are
  the offer for amount 25000 in band low.
\<close>

theorem scenario_25000_59:
  "simulateInvoiceProcessing_riskBand 25000 59 = ''high'' \<and>
   Offer.advancePercent (calculateOffer 25000 ''high'') = 80 \<and>
   Offer.advanceAmount (calculateOffer 25000 ''high'') = 20000 \<and>
   Offer.feePercent (calculateOffer 25000 ''high'') = 3.5 \<and>
   Offer.fee (calculateOffer 25000 ''high'') = 875 \<and>
   Offer.remainingAmount (calculateOffer 25000 ''high'') = 4125 \<and>
   Offer.advancePercent (calculateOffer 25000 ''low'') = 90 \<and>
   Offer.advanceAmount (calculateOffer 25000 ''low'') = 22500 \<and>
   Offer.feePercent (calculateOffer 25000 ''low'') = 2.5 \<and>
   Offer.fee (calculateOffer 25000 ''low'') = 625 \<and>
   Offer.remainingAmount (calculateOffer 25000 ''low'') = 1875"
  by (simp add: simulateInvoiceProcessing_riskBand_def calculateOffer_def offerTerms_def Let_def)

subsection \<open>Scored risk assessment\<close>


subsection \<open>The store\<close>

lemma kv_get_set: "kv_get (kv_set t k v) k' = (if k' = k then Some v else kv_get t k')"
  by (simp add: kv_get_def kv_set_def update_conv')

lemma kv_set_length:
  assumes "kv_get t k = None"
  shows "length (kv_set t k v) = Suc (length t)"
proof -
  from assms have "k \<notin> set (map fst t)"
    by (simp add: kv_get_def map_of_eq_None_iff)
  then have "map fst (AList.update k v t) = map fst t @ [k]"
    by (simp add: update_keys)
  then have "length (map fst (AList.update k v t)) = Suc (length t)"
    by simp
  then show ?thesis
    by (simp add: kv_set_def)
qed

subsection \<open>Listing the advances of a user\<close>





subsection \<open>Marking an advance as paid\<close>


lemma markPaid_found_response:
  "kv_get (advanceRows s) (''advance:'' @ aid) = Some a \<Longrightarrow> fst (markPaid e aid s) = Ok True"
  by (simp add: markPaid_def Let_def)

lemma markPaid_found_advanceRows:
  "kv_get (advanceRows s) (''advance:'' @ aid) = Some a \<Longrightarrow>
   advanceRows (snd (markPaid e aid s)) =
     kv_set (advanceRows s) (''advance:'' @ aid) (a\<lparr>Advance.status := ''paid''\<rparr>)"
  by (simp add: markPaid_def Let_def)

lemma markPaid_found_indexRows:
  "kv_get (advanceRows s) (''advance:'' @ aid) = Some a \<Longrightarrow>
   indexRows (snd (markPaid e aid s)) =
     kv_set (indexRows s) (''user:'' @ DEFAULT_USER_ID @ '':settlement:'' @ uuid e) (uuid e)"
  by (simp add: markPaid_def Let_def)

lemma markPaid_found_settlementRows:
  "kv_get (advanceRows s) (''advance:'' @ aid) = Some a \<Longrightarrow>
   settlementRows (snd (markPaid e aid s)) =
     kv_set (settlementRows s) (''settlement:'' @ uuid e)
       \<lparr>Settlement.id = uuid e,
        invoiceId = Advance.invoiceId a,
        userId = DEFAULT_USER_ID,
        filename = Advance.filename a,
        buyer = Advance.buyer a,
        invoiceAmount = Advance.invoiceAmount a,
        advanceAmount = Advance.advanceAmount a,
        feeAmount = real_of_int \<lfloor>Advance.invoiceAmount a * Advance.feePercent a / 100\<rfloor>,
        feePercent = Advance.feePercent a,
        remainingAmount = Advance.invoiceAmount a - Advance.advanceAmount a
          - real_of_int \<lfloor>Advance.invoiceAmount a * Advance.feePercent a / 100\<rfloor>,
        settlementAmount = Advance.invoiceAmount a - Advance.advanceAmount a
          - real_of_int \<lfloor>Advance.invoiceAmount a * Advance.feePercent a / 100\<rfloor>,
        paidDate = paidAt e,
        createdAt = Advance.createdAt a,
        riskBand = Advance.riskBand a,
        daysToPay = daysBetween (now e) (Advance.createdAt a)\<rparr>"
  by (simp add: markPaid_def Let_def)

text \<open>The state after the first call on the example state, row by row.\<close>

lemma paidState_rows:
  "paidState =
     \<lparr>advanceRows = [(''advance:a1'', paidAdvance)],
      settlementRows = [(''settlement:s1'',
        \<lparr>Settlement.id = ''s1'', invoiceId = ''i1'', userId = ''demo-user-123'',
         filename = ''INV-2024-001.pdf'', buyer = ''Acme Corp'',
         invoiceAmount = 25000, advanceAmount = 22500, feeAmount = 625, feePercent = 2.5,
         remainingAmount = 1875, settlementAmount = 1875,
         paidDate = 5 * msPerDay + 2, createdAt = 0, riskBand = ''low'', daysToPay = 6\<rparr>)],
      indexRows = [(''user:demo-user-123:advance:a1'', ''a1''),
                   (''user:demo-user-123:settlement:s1'', ''s1'')]\<rparr>"
  by (simp add: paidState_def paidAdvance_def markPaid_def exampleState_def exampleAdvance_def firstCall_def
      kv_get_def kv_set_def Let_def DEFAULT_USER_ID_def daysBetween_def msPerDay_def)



text \<open>
  C10. When the advance id has a record, the record stored under its key after the call
  is the previous record with status paid: id, invoiceId, userId, filename, buyer,
  invoiceAmount, advanceAmount, feePercent, dueDate, createdAt and riskBand keep their
  values.
\<close>

theorem markPaid_frame:
  assumes "kv_get (advanceRows s) (''advance:'' @ aid) = Some a"
  shows "\<exists>a'. kv_get (advanceRows (snd (markPaid e aid s))) (''advance:'' @ aid) = Some a' \<and>
           a' = a\<lparr>Advance.status := ''paid''\<rparr> \<and>
           Advance.status a' = ''paid'' \<and>
           Advance.id a' = Advance.id a \<and>
           Advance.invoiceId a' = Advance.invoiceId a \<and>
           Advance.userId a' = Advance.userId a \<and>
           Advance.filename a' = Advance.filename a \<and>
           Advance.buyer a' = Advance.buyer a \<and>
           Advance.invoiceAmount a' = Advance.invoiceAmount a \<and>
           Advance.advanceAmount a' = Advance.advanceAmount a \<and>
           Advance.feePercent a' = Advance.feePercent a \<and>
           Advance.dueDate a' = Advance.dueDate a \<and>
           Advance.createdAt a' = Advance.createdAt a \<and>
           Advance.riskBand a' = Advance.riskBand a"
  by (simp add: markPaid_found_advanceRows [OF assms] kv_get_set)

theorem markPaid_frame_witness:
  "kv_get (advanceRows exampleState) ''advance:a1'' = Some exampleAdvance \<and>
   kv_get (advanceRows (snd (markPaid firstCall ''a1'' exampleState))) ''advance:a1''
     = Some (exampleAdvance\<lparr>Advance.status := ''paid''\<rparr>) \<and>
   Advance.status exampleAdvance = ''active'' \<and>
   Advance.invoiceAmount (exampleAdvance\<lparr>Advance.status := ''paid''\<rparr>) = 25000"
proof -
  have found: "kv_get (advanceRows exampleState) (''advance:'' @ ''a1'') = Some exampleAdvance"
    by (simp add: exampleState_def kv_get_def)
  from markPaid_frame [OF found, of firstCall] found show ?thesis
    by (simp add: exampleAdvance_def)
qed

text \<open>
  C2, as the specification states it: a call for an advance that is already paid would
  be rejected and would store no second settlement. In the state reached by marking
  the example advance paid once, a second call for the same advance answers with
  success and the settlement table holds two settlements of the same invoice.
\<close>

theorem markPaid_twice_counterexample:
  "kv_get (advanceRows paidState) ''advance:a1'' = Some paidAdvance \<and>
   Advance.status paidAdvance = ''paid'' \<and>
   map fst (settlementRows paidState) = [''settlement:s1''] \<and>
   fst (markPaid secondCall ''a1'' paidState) = Ok True \<and>
   map fst (settlementRows (snd (markPaid secondCall ''a1'' paidState)))
     = [''settlement:s1'', ''settlement:s2''] \<and>
   map (\<lambda>row. Settlement.invoiceId (snd row))
       (settlementRows (snd (markPaid secondCall ''a1'' paidState)))
     = [''i1'', ''i1'']"
  by (simp add: paidState_rows paidAdvance_def markPaid_def exampleAdvance_def secondCall_def
      kv_get_def kv_set_def Let_def DEFAULT_USER_ID_def daysBetween_def msPerDay_def)

text \<open>
  C2, amended. The handler does not read the status. A call for an advance whose
  status is already paid answers with success, leaves the advance as it is, and stores
  one more settlement for its invoice under the new settlement id.
\<close>

theorem markPaid_paid_unguarded:
  assumes found: "kv_get (advanceRows s) (''advance:'' @ aid) = Some a"
    and paid: "Advance.status a = ''paid''"
    and fresh: "kv_get (settlementRows s) (''settlement:'' @ uuid e) = None"
  shows "fst (markPaid e aid s) = Ok True \<and>
         kv_get (advanceRows (snd (markPaid e aid s))) (''advance:'' @ aid) = Some a \<and>
         length (settlementRows (snd (markPaid e aid s))) = Suc (length (settlementRows s)) \<and>
         (\<exists>st. kv_get (settlementRows (snd (markPaid e aid s))) (''settlement:'' @ uuid e) = Some st \<and>
               Settlement.invoiceId st = Advance.invoiceId a)"
proof -
  have "a\<lparr>Advance.status := Advance.status a\<rparr> = a" by simp
  with paid have same: "a\<lparr>Advance.status := ''paid''\<rparr> = a" by simp
  have len: "length (settlementRows (snd (markPaid e aid s))) = Suc (length (settlementRows s))"
    by (simp only: markPaid_found_settlementRows [OF found] kv_set_length [OF fresh])
  have rest: "fst (markPaid e aid s) = Ok True \<and>
         kv_get (advanceRows (snd (markPaid e aid s))) (''advance:'' @ aid) = Some a \<and>
         (\<exists>st. kv_get (settlementRows (snd (markPaid e aid s))) (''settlement:'' @ uuid e) = Some st \<and>
               Settlement.invoiceId st = Advance.invoiceId a)"
    by (simp add: markPaid_found_response [OF found] markPaid_found_advanceRows [OF found]
        markPaid_found_settlementRows [OF found] kv_get_set same)
  from len rest show ?thesis by blast
qed

theorem markPaid_paid_unguarded_witness:
  "kv_get (advanceRows paidState) ''advance:a1'' = Some paidAdvance \<and>
   Advance.status paidAdvance = ''paid'' \<and>
   kv_get (settlementRows paidState) ''settlement:s2'' = None \<and>
   length (settlementRows paidState) = 1 \<and>
   fst (markPaid secondCall ''a1'' paidState) = Ok True \<and>
   length (settlementRows (snd (markPaid secondCall ''a1'' paidState))) = 2"
proof -
  have found: "kv_get (advanceRows paidState) (''advance:'' @ ''a1'') = Some paidAdvance"
    by (simp add: paidState_rows kv_get_def)
  have paid: "Advance.status paidAdvance = ''paid''"
    by (simp add: paidAdvance_def)
  have fresh: "kv_get (settlementRows paidState) (''settlement:'' @ uuid secondCall) = None"
    by (simp add: paidState_rows kv_get_def secondCall_def)
  have len: "length (settlementRows paidState) = 1"
    by (simp add: paidState_rows)
  from markPaid_paid_unguarded [OF found paid fresh] found paid fresh len show ?thesis
    by (simp add: secondCall_def)
qed

end
